theory Spec2Isabelle
  imports Main "HOL-Library.Char_ord" "HOL-Library.List_Lexorder" "HOL-Library.Multiset"
begin

section \<open>Python values, exceptions and logging\<close>

text \<open>
  The repository is dynamically typed Python. Exceptions are values: a function that may
  raise returns \<open>exn + 'a\<close>, with \<open>Inl\<close> the exception that propagates to the caller.
\<close>

datatype exn = AttributeError | TypeError | ValueError | KeyError | InvalidSignature | LibraryError

definition bind :: "exn + 'a \<Rightarrow> ('a \<Rightarrow> exn + 'b) \<Rightarrow> exn + 'b" where
  "bind m f = (case m of Inl e \<Rightarrow> Inl e | Inr x \<Rightarrow> f x)"

text \<open>
  Plain data, as it occurs in DID documents, dict-shaped transactions and key material:
  \<open>None\<close>, booleans, integers, \<open>str\<close>, \<open>bytes\<close>, lists and dicts with string keys
  (an association list in insertion order). Floats are not modelled.
\<close>

datatype pyval =
    PNone
  | PBool bool
  | PInt int
  | PStr string
  | PBytes string
  | PList "pyval list"
  | PDict "(string \<times> pyval) list"

text \<open>
  The consensus layer works on attribute-carrying objects (\<open>transaction.id\<close>,
  \<open>proposal.transactions\<close>, \<open>block.height\<close>): an object is its attribute table, a
  bound zero-argument method is the value its call returns, a list of objects is \<open>Seq\<close>.
\<close>

datatype pyobj =
    Data pyval
  | Seq "pyobj list"
  | Method pyobj
  | Obj "(string \<times> pyobj) list"

text \<open>
  \<open>hasattr\<close> and attribute reads, for the field names the consensus layer uses
  (\<open>id\<close>, \<open>sender\<close>, \<open>signature\<close>, \<open>proposer\<close>, \<open>transactions\<close>, \<open>height\<close>,
  \<open>producer\<close>, \<open>proposals\<close>, \<open>get_message_for_signing\<close>): built-in values carry none of
  them, so only an \<open>Obj\<close> can have one.
\<close>

fun hasattr :: "pyobj \<Rightarrow> string \<Rightarrow> bool" where
  "hasattr (Obj attrs) name = (map_of attrs name \<noteq> None)"
| "hasattr _ name = False"

fun getattr :: "pyobj \<Rightarrow> string \<Rightarrow> exn + pyobj" where
  "getattr (Obj attrs) name =
     (case map_of attrs name of None \<Rightarrow> Inl AttributeError | Some v \<Rightarrow> Inr v)"
| "getattr _ name = Inl AttributeError"

text \<open>A call \<open>f()\<close>: only a method is callable.\<close>

fun call_method :: "pyobj \<Rightarrow> exn + pyobj" where
  "call_method (Method r) = Inr r"
| "call_method _ = Inl TypeError"

text \<open>The elements a \<open>for\<close> loop visits; a value that is not iterable raises \<open>TypeError\<close>.\<close>

fun iterate :: "pyobj \<Rightarrow> exn + pyobj list" where
  "iterate (Seq xs) = Inr xs"
| "iterate (Data (PList xs)) = Inr (map Data xs)"
| "iterate (Data (PStr s)) = Inr (map (\<lambda>c. Data (PStr [c])) s)"
| "iterate (Data (PBytes s)) = Inr (map (\<lambda>c. Data (PInt (of_char c))) s)"
| "iterate (Data (PDict kvs)) = Inr (map (\<lambda>kv. Data (PStr (fst kv))) kvs)"
| "iterate _ = Inl TypeError"

section \<open>consensus/validation.py: Validator\<close>

text \<open>
  The identity service is injected through the constructor; the validator only calls its
  \<open>verify_signature(did, message, signature)\<close>, which may raise.
\<close>

type_synonym identity_service = "pyobj \<Rightarrow> pyobj \<Rightarrow> pyobj \<Rightarrow> exn + bool"

definition validate_transaction_format :: "pyobj \<Rightarrow> bool" where
  "validate_transaction_format transaction =
     list_all (hasattr transaction) [''id'', ''sender'', ''signature'']"

definition validate_proposal_format :: "pyobj \<Rightarrow> bool" where
  "validate_proposal_format proposal =
     list_all (hasattr proposal) [''id'', ''proposer'', ''signature'', ''transactions'']"

definition validate_block_format :: "pyobj \<Rightarrow> bool" where
  "validate_block_format block =
     list_all (hasattr block) [''height'', ''producer'', ''signature'', ''proposals'']"

text \<open>
  \<open>signed_by ids entity signer_field\<close> is the common middle part of the three validators:
  read the signer, call \<open>get_message_for_signing()\<close>, read the signature, ask the identity
  service. Every attribute read can raise \<open>AttributeError\<close>.
\<close>

definition signed_by :: "identity_service \<Rightarrow> pyobj \<Rightarrow> string \<Rightarrow> exn + bool" where
  "signed_by ids entity signer_field =
     bind (getattr entity signer_field) (\<lambda>did.
     bind (getattr entity ''get_message_for_signing'') (\<lambda>m.
     bind (call_method m) (\<lambda>message.
     bind (getattr entity ''signature'') (\<lambda>signature.
       ids did message signature))))"

text \<open>
  A logger call is modelled by what evaluating its f-string can do: each \<open>{x.attr}\<close> is
  an attribute read, which raises when the attribute is missing.
\<close>

definition validate_transaction :: "identity_service \<Rightarrow> pyobj \<Rightarrow> exn + bool" where
  "validate_transaction ids transaction =
     (if \<not> validate_transaction_format transaction then Inr False
      else bind (signed_by ids transaction ''sender'') (\<lambda>ok.
        if \<not> ok then bind (getattr transaction ''id'') (\<lambda>_. Inr False)
        else Inr True))"

text \<open>The loop over \<open>proposal.transactions\<close>, after the first \<open>i\<close> elements passed.\<close>

fun validate_transactions :: "identity_service \<Rightarrow> pyobj \<Rightarrow> pyobj list \<Rightarrow> exn + bool" where
  "validate_transactions ids proposal [] = Inr True"
| "validate_transactions ids proposal (tx # txs) =
     bind (validate_transaction ids tx) (\<lambda>ok.
       if \<not> ok then
         bind (getattr tx ''id'') (\<lambda>_. bind (getattr proposal ''id'') (\<lambda>_. Inr False))
       else validate_transactions ids proposal txs)"

definition validate_proposal :: "identity_service \<Rightarrow> pyobj \<Rightarrow> exn + bool" where
  "validate_proposal ids proposal =
     (if \<not> validate_proposal_format proposal then Inr False
      else bind (signed_by ids proposal ''proposer'') (\<lambda>ok.
        if \<not> ok then bind (getattr proposal ''id'') (\<lambda>_. Inr False)
        else bind (getattr proposal ''transactions'') (\<lambda>ts.
             bind (iterate ts) (\<lambda>txs. validate_transactions ids proposal txs))))"

fun validate_proposals :: "identity_service \<Rightarrow> pyobj \<Rightarrow> pyobj list \<Rightarrow> exn + bool" where
  "validate_proposals ids block [] = Inr True"
| "validate_proposals ids block (p # ps) =
     bind (validate_proposal ids p) (\<lambda>ok.
       if \<not> ok then
         bind (getattr p ''id'') (\<lambda>_. bind (getattr block ''height'') (\<lambda>_. Inr False))
       else validate_proposals ids block ps)"

definition validate_block :: "identity_service \<Rightarrow> pyobj \<Rightarrow> exn + bool" where
  "validate_block ids block =
     (if \<not> validate_block_format block then Inr False
      else bind (signed_by ids block ''producer'') (\<lambda>ok.
        if \<not> ok then bind (getattr block ''height'') (\<lambda>_. Inr False)
        else bind (getattr block ''proposals'') (\<lambda>ps.
             bind (iterate ps) (\<lambda>props. validate_proposals ids block props))))"

section \<open>consensus/engine.py: ConsensusEngine\<close>

record engine =
  pending_transactions :: "pyobj list"
  pending_proposals :: "pyobj list"
  current_block :: "pyobj option"

definition init_engine :: engine where
  "init_engine = \<lparr>pending_transactions = [], pending_proposals = [], current_block = None\<rparr>"

text \<open>
  The engine's methods return the result (or the exception) together with the engine
  state they leave behind. Both branches format \<open>transaction.id\<close> into their log line.
\<close>

definition add_transaction :: "identity_service \<Rightarrow> engine \<Rightarrow> pyobj \<Rightarrow> (exn + bool) \<times> engine" where
  "add_transaction ids s transaction =
     (case validate_transaction ids transaction of
        Inl e \<Rightarrow> (Inl e, s)
      | Inr ok \<Rightarrow>
          if ok then
            (let s' = s\<lparr>pending_transactions := pending_transactions s @ [transaction]\<rparr>
             in (bind (getattr transaction ''id'') (\<lambda>_. Inr True), s'))
          else (bind (getattr transaction ''id'') (\<lambda>_. Inr False), s))"

definition add_proposal :: "identity_service \<Rightarrow> engine \<Rightarrow> pyobj \<Rightarrow> (exn + bool) \<times> engine" where
  "add_proposal ids s proposal =
     (case validate_proposal ids proposal of
        Inl e \<Rightarrow> (Inl e, s)
      | Inr ok \<Rightarrow>
          if ok then
            (let s' = s\<lparr>pending_proposals := pending_proposals s @ [proposal]\<rparr>
             in (bind (getattr proposal ''id'') (\<lambda>_. Inr True), s'))
          else (bind (getattr proposal ''id'') (\<lambda>_. Inr False), s))"

definition engine_validate_block :: "identity_service \<Rightarrow> pyobj \<Rightarrow> exn + bool" where
  "engine_validate_block ids block = validate_block ids block"

definition add_block :: "identity_service \<Rightarrow> engine \<Rightarrow> pyobj \<Rightarrow> (exn + bool) \<times> engine" where
  "add_block ids s block =
     (case engine_validate_block ids block of
        Inl e \<Rightarrow> (Inl e, s)
      | Inr ok \<Rightarrow>
          if ok then (bind (getattr block ''height'') (\<lambda>_. Inr True), s)
          else (bind (getattr block ''height'') (\<lambda>_. Inr False), s))"

section \<open>Python operations on plain data\<close>

text \<open>Truth value of a value in a condition (\<open>if not x\<close>).\<close>

fun truthy :: "pyval \<Rightarrow> bool" where
  "truthy PNone = False"
| "truthy (PBool b) = b"
| "truthy (PInt i) = (i \<noteq> 0)"
| "truthy (PStr s) = (s \<noteq> [])"
| "truthy (PBytes s) = (s \<noteq> [])"
| "truthy (PList xs) = (xs \<noteq> [])"
| "truthy (PDict kvs) = (kvs \<noteq> [])"

text \<open>\<open>d.get(key, default)\<close>: only a dict has the method.\<close>

fun py_get :: "pyval \<Rightarrow> string \<Rightarrow> pyval \<Rightarrow> exn + pyval" where
  "py_get (PDict kvs) key dflt = (case map_of kvs key of None \<Rightarrow> Inr dflt | Some v \<Rightarrow> Inr v)"
| "py_get _ key dflt = Inl AttributeError"

text \<open>\<open>d[key]\<close> with a string key.\<close>

fun py_subscript :: "pyval \<Rightarrow> string \<Rightarrow> exn + pyval" where
  "py_subscript (PDict kvs) key = (case map_of kvs key of None \<Rightarrow> Inl KeyError | Some v \<Rightarrow> Inr v)"
| "py_subscript _ key = Inl TypeError"

fun starts_with :: "string \<Rightarrow> string \<Rightarrow> bool" where
  "starts_with s [] = True"
| "starts_with [] (p # ps) = False"
| "starts_with (c # cs) (p # ps) = (c = p \<and> starts_with cs ps)"

fun has_substring :: "string \<Rightarrow> string \<Rightarrow> bool" where
  "has_substring [] sub = (sub = [])"
| "has_substring (c # cs) sub = (starts_with (c # cs) sub \<or> has_substring cs sub)"

text \<open>
  \<open>key in x\<close> for a string \<open>key\<close>: key membership in a dict, element membership in a
  list, substring test in a \<open>str\<close>; \<open>TypeError\<close> for \<open>bytes\<close> and for values that are
  not containers.
\<close>

fun py_in :: "string \<Rightarrow> pyval \<Rightarrow> exn + bool" where
  "py_in key (PDict kvs) = Inr (map_of kvs key \<noteq> None)"
| "py_in key (PList xs) = Inr (PStr key \<in> set xs)"
| "py_in key (PStr s) = Inr (has_substring s key)"
| "py_in key _ = Inl TypeError"

text \<open>The elements a \<open>for\<close> loop or a comprehension visits.\<close>

fun py_iter :: "pyval \<Rightarrow> exn + pyval list" where
  "py_iter (PList xs) = Inr xs"
| "py_iter (PDict kvs) = Inr (map (\<lambda>kv. PStr (fst kv)) kvs)"
| "py_iter (PStr s) = Inr (map (\<lambda>c. PStr [c]) s)"
| "py_iter (PBytes s) = Inr (map (\<lambda>c. PInt (of_char c)) s)"
| "py_iter _ = Inl TypeError"

text \<open>
  Sets: an element must be hashable (lists and dicts are not), membership compares with
  \<open>==\<close>, under which \<open>True == 1\<close> and \<open>False == 0\<close>. A set is represented by the list
  of its elements.
\<close>

fun hashable :: "pyval \<Rightarrow> bool" where
  "hashable (PList xs) = False"
| "hashable (PDict kvs) = False"
| "hashable _ = True"

fun as_number :: "pyval \<Rightarrow> int option" where
  "as_number (PBool b) = Some (if b then 1 else 0)"
| "as_number (PInt i) = Some i"
| "as_number _ = None"

definition scalar_eq :: "pyval \<Rightarrow> pyval \<Rightarrow> bool" where
  "scalar_eq a b =
     (case as_number a of
        Some x \<Rightarrow> (case as_number b of Some y \<Rightarrow> x = y | None \<Rightarrow> False)
      | None \<Rightarrow> a = b)"

definition set_member :: "pyval \<Rightarrow> pyval list \<Rightarrow> exn + bool" where
  "set_member x elems =
     (if \<not> hashable x then Inl TypeError else Inr (list_ex (scalar_eq x) elems))"

text \<open>\<open>all(k in x for k in keys)\<close> and the loop \<open>for k in keys: if k not in x: return False\<close>.\<close>

fun all_in :: "string list \<Rightarrow> pyval \<Rightarrow> exn + bool" where
  "all_in [] x = Inr True"
| "all_in (k # ks) x = bind (py_in k x) (\<lambda>b. if \<not> b then Inr False else all_in ks x)"

text \<open>
  \<open>str.lower()\<close> on code points below 256, \<open>bytes.lower()\<close> on ASCII only; other values
  have no such method.
\<close>

definition lower_ascii :: "char \<Rightarrow> char" where
  "lower_ascii c =
     (let n = (of_char c :: nat) in if 65 \<le> n \<and> n \<le> 90 then char_of (n + 32) else c)"

definition lower_latin1 :: "char \<Rightarrow> char" where
  "lower_latin1 c =
     (let n = (of_char c :: nat) in
      if (65 \<le> n \<and> n \<le> 90) \<or> (192 \<le> n \<and> n \<le> 222 \<and> n \<noteq> 215) then char_of (n + 32) else c)"

fun py_lower :: "pyval \<Rightarrow> exn + pyval" where
  "py_lower (PStr s) = Inr (PStr (map lower_latin1 s))"
| "py_lower (PBytes s) = Inr (PBytes (map lower_ascii s))"
| "py_lower _ = Inl AttributeError"

text \<open>\<open>x.startswith('z')\<close> and \<open>x[1:]\<close>.\<close>

fun py_startswith :: "pyval \<Rightarrow> string \<Rightarrow> exn + bool" where
  "py_startswith (PStr s) p = Inr (starts_with s p)"
| "py_startswith (PBytes s) p = Inl TypeError"
| "py_startswith _ p = Inl AttributeError"

fun py_slice_from_1 :: "pyval \<Rightarrow> exn + pyval" where
  "py_slice_from_1 (PStr s) = Inr (PStr (drop 1 s))"
| "py_slice_from_1 (PBytes s) = Inr (PBytes (drop 1 s))"
| "py_slice_from_1 (PList xs) = Inr (PList (drop 1 xs))"
| "py_slice_from_1 _ = Inl TypeError"

text \<open>\<open>str.encode('utf-8')\<close> on code points below 256.\<close>

definition utf8_char :: "char \<Rightarrow> string" where
  "utf8_char c =
     (let n = (of_char c :: nat) in
      if n < 128 then [c] else [char_of (192 + n div 64), char_of (128 + n mod 64)])"

definition encode_utf8 :: "string \<Rightarrow> string" where
  "encode_utf8 s = concat (map utf8_char s)"

section \<open>json.dumps(data, sort_keys=True)\<close>

text \<open>
  The standard encoder with its defaults (\<open>ensure_ascii\<close>, separators \<open>", "\<close> and
  \<open>": "\<close>): a string is quoted, with the quote, the backslash and every character outside
  the printable ASCII range escaped; a dict is written with its items sorted by key.
  \<open>bytes\<close> is not serializable.
\<close>

definition hex_digit :: "nat \<Rightarrow> char" where
  "hex_digit n = ''0123456789abcdef'' ! (n mod 16)"

definition escape_char :: "char \<Rightarrow> string" where
  "escape_char c =
     (if c = CHR 0x22 then [CHR 0x5C, CHR 0x22]
      else if c = CHR 0x5C then [CHR 0x5C, CHR 0x5C]
      else if c = CHR 0x0A then [CHR 0x5C, CHR ''n'']
      else if c = CHR 0x0D then [CHR 0x5C, CHR ''r'']
      else if c = CHR 0x09 then [CHR 0x5C, CHR ''t'']
      else if c = CHR 0x08 then [CHR 0x5C, CHR ''b'']
      else if c = CHR 0x0C then [CHR 0x5C, CHR ''f'']
      else if 32 \<le> (of_char c :: nat) \<and> (of_char c :: nat) \<le> 126 then [c]
      else [CHR 0x5C, CHR ''u'', CHR ''0'', CHR ''0'',
            hex_digit (of_char c div 16), hex_digit (of_char c mod 16)])"

definition json_string :: "string \<Rightarrow> string" where
  "json_string s = CHR 0x22 # concat (map escape_char s) @ [CHR 0x22]"

function nat_repr :: "nat \<Rightarrow> string" where
  "nat_repr n =
     (if n < 10 then [char_of (48 + n)] else nat_repr (n div 10) @ [char_of (48 + n mod 10)])"
  by pat_completeness auto
termination
  by (relation "measure id") auto

declare nat_repr.simps [simp del]

definition int_repr :: "int \<Rightarrow> string" where
  "int_repr i = (if i < 0 then CHR ''-'' # nat_repr (nat (- i)) else nat_repr (nat i))"

fun join :: "string \<Rightarrow> string list \<Rightarrow> string" where
  "join sep [] = []"
| "join sep [x] = x"
| "join sep (x # y # ys) = x @ sep @ join sep (y # ys)"

fun serializable :: "pyval \<Rightarrow> bool" where
  "serializable (PBytes s) = False"
| "serializable (PList xs) = list_all serializable xs"
| "serializable (PDict kvs) = list_all (\<lambda>kv. serializable (snd kv)) kvs"
| "serializable _ = True"

definition json_item :: "string \<times> string \<Rightarrow> string" where
  "json_item kv = json_string (fst kv) @ '': '' @ snd kv"

fun render :: "pyval \<Rightarrow> string" where
  "render PNone = ''null''"
| "render (PBool b) = (if b then ''true'' else ''false'')"
| "render (PInt i) = int_repr i"
| "render (PStr s) = json_string s"
| "render (PBytes s) = []"
| "render (PList xs) = ''['' @ join '', '' (map render xs) @ '']''"
| "render (PDict kvs) =
     ''{'' @ join '', '' (map json_item (sort_key fst (map (\<lambda>kv. (fst kv, render (snd kv))) kvs)))
       @ ''}''"

definition json_dumps :: "pyval \<Rightarrow> exn + string" where
  "json_dumps data = (if serializable data then Inr (render data) else Inl TypeError)"

text \<open>
  A Python dict has each key once: \<open>well_formed\<close> says so of the association lists, at
  every depth. \<open>same_map a b\<close>: the two values are the same logical object, dicts being
  compared as maps (the same keys, with values that are again the same), whatever the
  order of their items.
\<close>

fun well_formed :: "pyval \<Rightarrow> bool" where
  "well_formed (PList xs) = list_all well_formed xs"
| "well_formed (PDict kvs) =
     (distinct (map fst kvs) \<and> list_all (\<lambda>kv. well_formed (snd kv)) kvs)"
| "well_formed _ = True"

fun same_map :: "pyval \<Rightarrow> pyval \<Rightarrow> bool" where
  "same_map (PList xs) (PList ys) = list_all2 same_map xs ys"
| "same_map (PDict kvs) (PDict kvs') =
     (set (map fst kvs) = set (map fst kvs') \<and>
      list_all (\<lambda>kv. case map_of kvs' (fst kv) of
                        None \<Rightarrow> False
                      | Some v' \<Rightarrow> same_map (snd kv) v') kvs)"
| "same_map a b = (a = b)"

section \<open>src/blockchain/validation.py: ValidationService\<close>

text \<open>
  The service works on dict-shaped transactions. Its collaborators are injected: the
  identity service (\<open>get_did_document\<close>, \<open>validate_did_document\<close>) and the federation
  (\<open>verify_signature\<close> on the serialized content, the decoded signature and the document);
  \<open>bytes.fromhex\<close> is the built-in. Each of them may raise. The service's logger calls
  format only values that are already at hand and cannot raise.
\<close>

record collaborators =
  get_did_document :: "pyval \<Rightarrow> exn + pyval"
  identity_validate_did_document :: "pyval \<Rightarrow> exn + bool"
  federation_verify_signature :: "string \<Rightarrow> string \<Rightarrow> pyval \<Rightarrow> exn + bool"
  bytes_fromhex :: "pyval \<Rightarrow> exn + string"

definition check_required_transaction_fields :: "pyval \<Rightarrow> exn + bool" where
  "check_required_transaction_fields transaction =
     all_in [''id'', ''signer'', ''content'', ''signature''] transaction"

definition serialize_for_verification :: "pyval \<Rightarrow> exn + string" where
  "serialize_for_verification data = bind (json_dumps data) (\<lambda>s. Inr (encode_utf8 s))"

text \<open>The body of the \<open>try\<close> block of \<open>validate_transaction\<close>.\<close>

definition service_validate_transaction_body :: "collaborators \<Rightarrow> pyval \<Rightarrow> exn + bool" where
  "service_validate_transaction_body co transaction =
     bind (check_required_transaction_fields transaction) (\<lambda>present.
     if \<not> present then Inr False else
     bind (py_get transaction ''signer'' PNone) (\<lambda>did.
     bind (get_did_document co did) (\<lambda>did_document.
     if \<not> truthy did_document then Inr False else
     bind (identity_validate_did_document co did_document) (\<lambda>valid.
     if \<not> valid then Inr False else
     bind (py_get transaction ''content'' (PDict [])) (\<lambda>content.
     bind (serialize_for_verification content) (\<lambda>content_bytes.
     bind (py_get transaction ''signature'' PNone) (\<lambda>signature_hex.
     bind (bytes_fromhex co signature_hex) (\<lambda>signature.
     bind (federation_verify_signature co content_bytes signature did_document) (\<lambda>ok.
     if \<not> ok then Inr False else Inr True)))))))))"

text \<open>\<open>except Exception\<close>: whatever the body raises becomes the result \<open>False\<close>.\<close>

definition service_validate_transaction :: "collaborators \<Rightarrow> pyval \<Rightarrow> bool" where
  "service_validate_transaction co transaction =
     (case service_validate_transaction_body co transaction of
        Inl e \<Rightarrow> False
      | Inr b \<Rightarrow> b)"

section \<open>identity/signature.py: SignatureVerifier\<close>

datatype level = ERROR | WARNING | INFO

type_synonym log_entry = "level \<times> string"

text \<open>
  The cryptography library behind the verifier: base64 decoding, and the two checks
  (load the public key, verify the signature over the message), each of which returns
  normally or raises, \<open>InvalidSignature\<close> for a signature that does not match.
\<close>

record crypto =
  b64decode :: "string \<Rightarrow> exn + string"
  ed25519_check :: "pyval \<Rightarrow> pyval \<Rightarrow> pyval \<Rightarrow> exn + unit"
  rsa_check :: "pyval \<Rightarrow> pyval \<Rightarrow> pyval \<Rightarrow> exn + unit"

definition decode_if_str :: "crypto \<Rightarrow> pyval \<Rightarrow> exn + pyval" where
  "decode_if_str lib v =
     (case v of PStr s \<Rightarrow> bind (b64decode lib s) (\<lambda>b. Inr (PBytes b)) | _ \<Rightarrow> Inr v)"

definition encode_if_str :: "pyval \<Rightarrow> pyval" where
  "encode_if_str v = (case v of PStr s \<Rightarrow> PBytes (encode_utf8 s) | _ \<Rightarrow> v)"

definition verify_ed25519 :: "crypto \<Rightarrow> pyval \<Rightarrow> pyval \<Rightarrow> pyval \<Rightarrow> bool \<times> log_entry list" where
  "verify_ed25519 lib message signature public_key =
     (case bind (decode_if_str lib public_key) (\<lambda>pk.
           bind (decode_if_str lib signature) (\<lambda>sg.
             ed25519_check lib pk sg (encode_if_str message))) of
        Inr _ \<Rightarrow> (True, [])
      | Inl e \<Rightarrow>
          if e = InvalidSignature then (False, [(WARNING, ''Invalid Ed25519 signature'')])
          else (False, [(ERROR, ''Ed25519 verification error'')]))"

definition verify_rsa :: "crypto \<Rightarrow> pyval \<Rightarrow> pyval \<Rightarrow> pyval \<Rightarrow> bool \<times> log_entry list" where
  "verify_rsa lib message signature public_key =
     (case bind (decode_if_str lib public_key) (\<lambda>pk.
           bind (decode_if_str lib signature) (\<lambda>sg.
             rsa_check lib pk sg (encode_if_str message))) of
        Inr _ \<Rightarrow> (True, [])
      | Inl e \<Rightarrow>
          if e = InvalidSignature then (False, [(WARNING, ''Invalid RSA signature'')])
          else (False, [(ERROR, ''RSA verification error'')]))"

text \<open>
  \<open>verify(message, signature, public_key, key_type)\<close>: the dispatch on
  \<open>key_type.lower()\<close> inside \<open>try\<close>; \<open>except Exception\<close> turns anything raised there into
  \<open>False\<close> with the log line \<open>Signature verification error\<close>.
\<close>

definition verify :: "crypto \<Rightarrow> pyval \<Rightarrow> pyval \<Rightarrow> pyval \<Rightarrow> pyval \<Rightarrow> bool \<times> log_entry list" where
  "verify lib message signature public_key key_type =
     (case bind (py_lower key_type) (\<lambda>k.
           if k = PStr ''ed25519'' then Inr (verify_ed25519 lib message signature public_key)
           else bind (py_lower key_type) (\<lambda>k'.
             if k' = PStr ''rsa'' then Inr (verify_rsa lib message signature public_key)
             else Inr (False, [(ERROR, ''Unsupported key type'')]))) of
        Inl e \<Rightarrow> (False, [(ERROR, ''Signature verification error'')])
      | Inr r \<Rightarrow> r)"

text \<open>
  \<open>calculate_fingerprint(data)\<close>: a dict is hashed through its sorted-key JSON form, a
  \<open>str\<close> through its UTF-8 bytes, \<open>bytes\<close> as they are; \<open>hashlib.sha256\<close> raises
  \<open>TypeError\<close> for anything else. The digest and the base64 encoder are the library's.
\<close>

definition calculate_fingerprint :: "(string \<Rightarrow> string) \<Rightarrow> (string \<Rightarrow> string) \<Rightarrow> pyval \<Rightarrow> exn + string" where
  "calculate_fingerprint sha256 b64encode data =
     bind (case data of
             PDict kvs \<Rightarrow> bind (json_dumps data) (\<lambda>s. Inr (encode_utf8 s))
           | PStr s \<Rightarrow> Inr (encode_utf8 s)
           | PBytes b \<Rightarrow> Inr b
           | _ \<Rightarrow> Inl TypeError)
       (\<lambda>data_bytes. Inr (b64encode (sha256 data_bytes)))"

text \<open>The names the class body of \<open>SignatureVerifier\<close> in identity/signature.py binds.\<close>

definition SignatureVerifier_attributes :: "string list" where
  "SignatureVerifier_attributes =
     [''__init__'', ''verify'', ''_verify_ed25519'', ''_verify_rsa'', ''calculate_fingerprint'']"

text \<open>\<open>Class.name\<close>: an attribute the class does not bind raises \<open>AttributeError\<close>.\<close>

definition class_getattr :: "string list \<Rightarrow> string \<Rightarrow> exn + string" where
  "class_getattr attributes name =
     (if name \<in> set attributes then Inr name else Inl AttributeError)"

section \<open>identity/service.py: IdentityService\<close>

text \<open>The first loop: every verification method has the four required keys.\<close>

fun methods_structured :: "pyval list \<Rightarrow> exn + bool" where
  "methods_structured [] = Inr True"
| "methods_structured (method # methods) =
     bind (all_in [''id'', ''type'', ''controller'', ''publicKeyMultibase''] method) (\<lambda>ok.
       if \<not> ok then Inr False else methods_structured methods)"

text \<open>\<open>set(x.get(key) for x in xs)\<close>, for the controllers and for the service ids.\<close>

fun collect_set :: "string \<Rightarrow> pyval list \<Rightarrow> exn + pyval list" where
  "collect_set key [] = Inr []"
| "collect_set key (x # xs) =
     bind (py_get x key PNone) (\<lambda>v.
       if \<not> hashable v then Inl TypeError
       else bind (collect_set key xs) (\<lambda>vs. Inr (v # vs)))"

text \<open>The loop over a list-valued \<open>serviceEndpoint\<close>.\<close>

fun references_exist :: "pyval list \<Rightarrow> pyval list \<Rightarrow> exn + bool" where
  "references_exist [] service_ids = Inr True"
| "references_exist (service_ref # refs) service_ids =
     bind (set_member service_ref service_ids) (\<lambda>found.
       if \<not> found then Inr False else references_exist refs service_ids)"

text \<open>The last loop: every service a verification method refers to is declared.\<close>

fun services_exist :: "pyval list \<Rightarrow> pyval list \<Rightarrow> exn + bool" where
  "services_exist [] service_ids = Inr True"
| "services_exist (method # methods) service_ids =
     bind (py_get method ''serviceEndpoint'' (PList [])) (\<lambda>service_refs.
       case service_refs of
         PList refs \<Rightarrow>
           bind (references_exist refs service_ids) (\<lambda>ok.
             if \<not> ok then Inr False else services_exist methods service_ids)
       | _ \<Rightarrow>
           if truthy service_refs then
             bind (set_member service_refs service_ids) (\<lambda>found.
               if \<not> found then Inr False else services_exist methods service_ids)
           else services_exist methods service_ids)"

definition validate_did_document :: "pyval \<Rightarrow> exn + bool \<times> log_entry list" where
  "validate_did_document did_document =
     bind (py_get did_document ''id'' PNone) (\<lambda>doc_id.
     if \<not> truthy doc_id then
       Inr (False, [(ERROR, ''DID document missing required id field'')])
     else
     bind (py_get did_document ''verificationMethod'' (PList [])) (\<lambda>verification_methods.
     if \<not> truthy verification_methods then
       Inr (False, [(ERROR, ''DID document has no verification methods'')])
     else
     bind (py_iter verification_methods) (\<lambda>methods.
     bind (methods_structured methods) (\<lambda>structured.
     if \<not> structured then
       Inr (False, [(ERROR, ''Verification method missing required fields'')])
     else
     bind (collect_set ''controller'' methods) (\<lambda>controllers.
     bind (set_member doc_id controllers) (\<lambda>controlled.
     let warning =
       (if \<not> controlled then
          [(WARNING, ''DID document id is not a controller of any verification method'')]
        else [])
     in
     bind (py_get did_document ''service'' (PList [])) (\<lambda>service.
     bind (py_iter service) (\<lambda>services.
     bind (collect_set ''id'' services) (\<lambda>service_ids.
     bind (services_exist methods service_ids) (\<lambda>ok.
     if \<not> ok then
       Inr (False, warning @ [(ERROR, ''Verification method references non-existent service'')])
     else Inr (True, warning)))))))))))"

text \<open>The loop of \<open>get_public_key\<close>: the first method that has a \<open>publicKeyMultibase\<close>.\<close>

fun first_public_key :: "pyval list \<Rightarrow> exn + pyval" where
  "first_public_key [] = Inr PNone"
| "first_public_key (method # methods) =
     bind (py_in ''publicKeyMultibase'' method) (\<lambda>present.
       if present then
         bind (py_subscript method ''publicKeyMultibase'') (\<lambda>public_key.
         bind (py_startswith public_key ''z'') (\<lambda>multibase.
           if multibase then py_slice_from_1 public_key else Inr public_key))
       else first_public_key methods)"

text \<open>
  \<open>resolve_did\<close> is the resolver behind the service: it returns the document, or \<open>None\<close>.
\<close>

definition get_public_key :: "(pyval \<Rightarrow> pyval) \<Rightarrow> pyval \<Rightarrow> exn + pyval \<times> log_entry list" where
  "get_public_key resolve_did did_id =
     (let did_document = resolve_did did_id in
      if \<not> truthy did_document then Inr (PNone, [])
      else
        bind (validate_did_document did_document) (\<lambda>validated.
          if \<not> fst validated then Inr (PNone, snd validated)
          else
            bind (py_get did_document ''verificationMethod'' (PList [])) (\<lambda>verification_methods.
            bind (py_iter verification_methods) (\<lambda>methods.
            bind (first_public_key methods) (\<lambda>public_key.
              Inr (public_key, snd validated))))))"

text \<open>
  \<open>verify_signature\<close> ends in \<open>SignatureVerifier.verify_signature(message, signature,
  public_key)\<close>, on the class imported from identity/signature.py: the attribute is looked
  up on the class first, and \<open>call\<close> stands for applying what the lookup returned to the
  three arguments.
\<close>

definition verify_signature ::
  "(pyval \<Rightarrow> pyval) \<Rightarrow> (string \<Rightarrow> pyval list \<Rightarrow> exn + bool) \<Rightarrow> pyval \<Rightarrow> pyval \<Rightarrow> pyval
     \<Rightarrow> exn + bool \<times> log_entry list" where
  "verify_signature resolve_did call did_id message signature =
     bind (get_public_key resolve_did did_id) (\<lambda>found.
       if \<not> truthy (fst found) then
         Inr (False, snd found @ [(ERROR, ''Unable to retrieve public key for DID'')])
       else
         bind (class_getattr SignatureVerifier_attributes ''verify_signature'') (\<lambda>f.
         bind (call f [message, signature, fst found]) (\<lambda>result.
           Inr (result, snd found))))"

section \<open>Structurally complete DID documents\<close>

text \<open>
  What the claims about \<open>validate_did_document\<close> assume of a document, stated on the data:
  a verification method is complete when it is a dict with \<open>id\<close>, \<open>type\<close>,
  \<open>controller\<close> and \<open>publicKeyMultibase\<close> (the controller being a value that can be put
  in a set); a service is a dict, declaring the id that \<open>service.get('id')\<close> reads; a
  service reference resolves when it equals a declared service id. An absent, empty or
  otherwise false \<open>serviceEndpoint\<close> refers to nothing.
\<close>

definition method_controller :: "pyval \<Rightarrow> pyval" where
  "method_controller method =
     (case py_get method ''controller'' PNone of Inr c \<Rightarrow> c | Inl e \<Rightarrow> PNone)"

definition method_complete :: "pyval \<Rightarrow> bool" where
  "method_complete method =
     (case method of
        PDict fs \<Rightarrow>
          map_of fs ''id'' \<noteq> None \<and> map_of fs ''type'' \<noteq> None \<and>
          map_of fs ''controller'' \<noteq> None \<and> map_of fs ''publicKeyMultibase'' \<noteq> None \<and>
          hashable (method_controller method)
      | _ \<Rightarrow> False)"

definition service_id :: "pyval \<Rightarrow> pyval" where
  "service_id service = (case py_get service ''id'' PNone of Inr i \<Rightarrow> i | Inl e \<Rightarrow> PNone)"

definition service_declared :: "pyval \<Rightarrow> bool" where
  "service_declared service =
     (case service of PDict fs \<Rightarrow> hashable (service_id service) | _ \<Rightarrow> False)"

definition resolves :: "pyval list \<Rightarrow> pyval \<Rightarrow> bool" where
  "resolves service_ids service_ref =
     (hashable service_ref \<and> list_ex (scalar_eq service_ref) service_ids)"

definition references_resolve :: "pyval list \<Rightarrow> pyval \<Rightarrow> bool" where
  "references_resolve service_ids method =
     (case py_get method ''serviceEndpoint'' (PList []) of
        Inr (PList refs) \<Rightarrow> list_all (resolves service_ids) refs
      | Inr service_ref \<Rightarrow> (if truthy service_ref then resolves service_ids service_ref else True)
      | Inl e \<Rightarrow> False)"

section \<open>The specification's key lookup\<close>

text \<open>
  \<open>getVerificationKey(document, keyId?)\<close> in the specification's words: the first
  verification method's public key if no id is given, else the key of the method with the
  requested id; a multibase prefix \<open>z\<close> is stripped. It is stated here to be compared with
  \<open>get_public_key\<close>.
\<close>

definition strip_multibase :: "string \<Rightarrow> string" where
  "strip_multibase k = (if starts_with k ''z'' then drop 1 k else k)"

definition spec_method_key :: "pyval \<Rightarrow> pyval" where
  "spec_method_key method =
     (case py_get method ''publicKeyMultibase'' PNone of
        Inr (PStr k) \<Rightarrow> PStr (strip_multibase k)
      | _ \<Rightarrow> PNone)"

definition spec_getVerificationKey :: "pyval \<Rightarrow> string option \<Rightarrow> pyval" where
  "spec_getVerificationKey document key_id =
     (case py_get document ''verificationMethod'' (PList []) of
        Inr (PList methods) \<Rightarrow>
          (case key_id of
             None \<Rightarrow> (case methods of [] \<Rightarrow> PNone | method # _ \<Rightarrow> spec_method_key method)
           | Some wanted \<Rightarrow>
               (case find (\<lambda>method. py_get method ''id'' PNone = Inr (PStr wanted)) methods of
                  None \<Rightarrow> PNone
                | Some method \<Rightarrow> spec_method_key method))
      | _ \<Rightarrow> PNone)"

section \<open>Example values\<close>

definition accept_all :: identity_service where
  "accept_all = (\<lambda>did message signature. Inr True)"

definition message_method :: "string \<times> pyobj" where
  "message_method = (''get_message_for_signing'', Method (Data (PBytes ''payload'')))"

text \<open>A transaction with every required field and its signing method.\<close>

definition tx_complete :: pyobj where
  "tx_complete =
     Obj [(''id'', Data (PStr ''tx1'')), (''sender'', Data (PStr ''did:x:1'')),
          (''signature'', Data (PStr ''3yZe7d'')), message_method]"

text \<open>A transaction without \<open>id\<close>.\<close>

definition tx_without_id :: pyobj where
  "tx_without_id =
     Obj [(''sender'', Data (PStr ''did:x:1'')), (''signature'', Data (PStr ''3yZe7d'')),
          message_method]"

text \<open>A transaction with the three required fields but no \<open>get_message_for_signing\<close>.\<close>

definition tx_without_method :: pyobj where
  "tx_without_method =
     Obj [(''id'', Data (PStr ''tx1'')), (''sender'', Data (PStr ''did:x:1'')),
          (''signature'', Data (PStr ''3yZe7d''))]"

definition proposal_of :: "pyobj list \<Rightarrow> pyobj" where
  "proposal_of txs =
     Obj [(''id'', Data (PStr ''p1'')), (''proposer'', Data (PStr ''did:x:2'')),
          (''signature'', Data (PStr ''5Hq2'')), (''transactions'', Seq txs), message_method]"

definition block_of :: "pyobj list \<Rightarrow> pyobj" where
  "block_of proposals =
     Obj [(''height'', Data (PInt 7)), (''producer'', Data (PStr ''did:x:3'')),
          (''signature'', Data (PStr ''9fKp'')), (''proposals'', Seq proposals), message_method]"

text \<open>
  A DID document with one Ed25519 verification method whose controller is another DID,
  and one with two verification methods.
\<close>

definition method_of :: "string \<Rightarrow> string \<Rightarrow> string \<Rightarrow> pyval" where
  "method_of method_id controller key =
     PDict [(''id'', PStr method_id), (''type'', PStr ''Ed25519''),
            (''controller'', PStr controller), (''publicKeyMultibase'', PStr key)]"

definition document_foreign_controller :: pyval where
  "document_foreign_controller =
     PDict [(''id'', PStr ''did:x:1''),
            (''verificationMethod'', PList [method_of ''did:x:1#k1'' ''did:x:9'' ''z6Mkf'']),
            (''service'', PList [PDict [(''id'', PStr ''svc1'')]])]"

definition document_two_keys :: pyval where
  "document_two_keys =
     PDict [(''id'', PStr ''did:x:1''),
            (''verificationMethod'',
               PList [method_of ''did:x:1#k1'' ''did:x:1'' ''z6Mkf'',
                      method_of ''did:x:1#k2'' ''did:x:1'' ''z7Qrs''])]"

text \<open>Collaborators of the dict-based service that accept everything.\<close>

definition permissive :: collaborators where
  "permissive =
     \<lparr>get_did_document = (\<lambda>did. Inr document_two_keys),
      identity_validate_did_document = (\<lambda>doc. Inr True),
      federation_verify_signature = (\<lambda>message signature doc. Inr True),
      bytes_fromhex = (\<lambda>v. case v of PStr s \<Rightarrow> Inr s | _ \<Rightarrow> Inl TypeError)\<rparr>"

section \<open>Basic facts\<close>

lemma bind_Inr [simp]: "bind (Inr x) f = f x"
  by (simp add: bind_def)

lemma bind_Inl [simp]: "bind (Inl e) f = Inl e"
  by (simp add: bind_def)

lemma hasattr_getattr: "hasattr x name \<longleftrightarrow> (\<exists>v. getattr x name = Inr v)"
  by (cases x) (auto split: option.splits)

lemma no_attr_getattr: "\<not> hasattr x name \<Longrightarrow> getattr x name = Inl AttributeError"
  by (cases x) (auto split: option.splits)

section \<open>Admission of entities without the logged attribute\<close>

text \<open>
  C10. A transaction object without an \<open>id\<close> attribute fails the required-field check, so
  \<open>validate_transaction\<close> returns \<open>False\<close>; the failure branch of \<open>add_transaction\<close> then
  formats \<open>transaction.id\<close> into its log line, and the read raises \<open>AttributeError\<close>
  instead of the method returning \<open>False\<close>. The same happens in \<open>add_proposal\<close> for a
  proposal without \<open>id\<close> and in \<open>add_block\<close> for a block without \<open>height\<close>. The pools
  are left as they were.
\<close>

theorem add_without_logged_attribute_raises:
  "(\<not> hasattr tx ''id'' \<longrightarrow>
      validate_transaction ids tx = Inr False \<and>
      add_transaction ids s tx = (Inl AttributeError, s)) \<and>
   (\<not> hasattr p ''id'' \<longrightarrow>
      validate_proposal ids p = Inr False \<and>
      add_proposal ids s p = (Inl AttributeError, s)) \<and>
   (\<not> hasattr b ''height'' \<longrightarrow>
      validate_block ids b = Inr False \<and>
      add_block ids s b = (Inl AttributeError, s))"
  by (simp add: add_transaction_def add_proposal_def add_block_def engine_validate_block_def
      validate_transaction_def validate_proposal_def validate_block_def
      validate_transaction_format_def validate_proposal_format_def validate_block_format_def
      no_attr_getattr)

theorem add_without_logged_attribute_raises_witness:
  "\<not> hasattr (Obj [(''sender'', Data (PStr ''did:x:1'')), (''signature'', Data (PStr ''00''))]) ''id'' \<and>
   add_transaction (\<lambda>d m g. Inr True) init_engine
     (Obj [(''sender'', Data (PStr ''did:x:1'')), (''signature'', Data (PStr ''00''))])
     = (Inl AttributeError, init_engine) \<and>
   \<not> hasattr (Obj [(''proposer'', Data (PStr ''did:x:1''))]) ''id'' \<and>
   add_proposal (\<lambda>d m g. Inr True) init_engine (Obj [(''proposer'', Data (PStr ''did:x:1''))])
     = (Inl AttributeError, init_engine) \<and>
   \<not> hasattr (Obj [(''producer'', Data (PStr ''did:x:1''))]) ''height'' \<and>
   add_block (\<lambda>d m g. Inr True) init_engine (Obj [(''producer'', Data (PStr ''did:x:1''))])
     = (Inl AttributeError, init_engine)"
  using add_without_logged_attribute_raises
    [of "Obj [(''sender'', Data (PStr ''did:x:1'')), (''signature'', Data (PStr ''00''))]"
        "\<lambda>d m g. Inr True" init_engine
        "Obj [(''proposer'', Data (PStr ''did:x:1''))]"
        "Obj [(''producer'', Data (PStr ''did:x:1''))]"]
  by simp

section \<open>The validation cascade\<close>

text \<open>Whatever the loops accept, every element was accepted.\<close>

lemma validate_transactions_True:
  "validate_transactions ids p txs = Inr True \<Longrightarrow> tx \<in> set txs \<Longrightarrow>
   validate_transaction ids tx = Inr True"
  by (induction txs) (auto simp: bind_def split: sum.splits if_splits)

lemma validate_proposals_True:
  "validate_proposals ids b ps = Inr True \<Longrightarrow> p \<in> set ps \<Longrightarrow>
   validate_proposal ids p = Inr True"
  by (induction ps) (auto simp: bind_def split: sum.splits if_splits)

lemma validate_proposal_True:
  "validate_proposal ids p = Inr True \<Longrightarrow>
   getattr p ''transactions'' = Inr ts \<Longrightarrow> iterate ts = Inr txs \<Longrightarrow>
   validate_transactions ids p txs = Inr True"
  by (auto simp: validate_proposal_def bind_def split: sum.splits if_splits)

lemma validate_block_True:
  "validate_block ids b = Inr True \<Longrightarrow>
   getattr b ''proposals'' = Inr ps \<Longrightarrow> iterate ps = Inr props \<Longrightarrow>
   validate_proposals ids b props = Inr True"
  by (auto simp: validate_block_def bind_def split: sum.splits if_splits)

text \<open>
  No partial acceptance: a block that contains, in one of its proposals, a transaction
  that \<open>validate_transaction\<close> does not accept is itself never accepted, and neither is
  that proposal.
\<close>

lemma nested_failure_never_accepted:
  assumes "getattr b ''proposals'' = Inr ps" and "iterate ps = Inr props" and "p \<in> set props"
    and "getattr p ''transactions'' = Inr ts" and "iterate ts = Inr txs" and "tx \<in> set txs"
    and "validate_transaction ids tx \<noteq> Inr True"
  shows "validate_proposal ids p \<noteq> Inr True \<and> validate_block ids b \<noteq> Inr True"
proof -
  have p: "validate_proposal ids p \<noteq> Inr True"
    using assms(4-7) validate_proposal_True validate_transactions_True by blast
  then have "validate_block ids b \<noteq> Inr True"
    using assms(1-3) validate_block_True validate_proposals_True by blast
  with p show ?thesis by simp
qed

text \<open>Fail-fast: what follows the first element that is not accepted is never looked at.\<close>

lemma validate_transactions_abort:
  "list_all (\<lambda>t. validate_transaction ids t = Inr True) pre \<Longrightarrow>
   validate_transaction ids tx \<noteq> Inr True \<Longrightarrow>
   validate_transactions ids p (pre @ tx # rest) = validate_transactions ids p (pre @ [tx])"
  by (induction pre) (auto simp: bind_def split: sum.splits)

lemma validate_proposals_abort:
  "list_all (\<lambda>t. validate_proposal ids t = Inr True) pre \<Longrightarrow>
   validate_proposal ids q \<noteq> Inr True \<Longrightarrow>
   validate_proposals ids b (pre @ q # rest) = validate_proposals ids b (pre @ [q])"
  by (induction pre) (auto simp: bind_def split: sum.splits)

text \<open>
  C4. Fail-fast cascade: a transaction that fails \<open>validate_transaction\<close> inside a proposal
  of a block should make \<open>validate_proposal\<close> fail and \<open>validate_block\<close> return \<open>False\<close>.
  The block below holds one proposal with a valid transaction followed by a transaction
  without \<open>id\<close>; every signature is accepted. \<open>validate_transaction\<close> returns \<open>False\<close> for
  the second transaction, and the loop of \<open>validate_proposal\<close> then formats \<open>tx.id\<close> into
  its error line: the read raises \<open>AttributeError\<close>, which leaves \<open>validate_proposal\<close> and
  \<open>validate_block\<close> as an exception, not as the result \<open>False\<close>.
\<close>

theorem cascade_raises_on_transaction_without_id:
  "validate_transaction accept_all tx_complete = Inr True \<and>
   validate_transaction accept_all tx_without_id = Inr False \<and>
   validate_proposal accept_all (proposal_of [tx_complete, tx_without_id]) = Inl AttributeError \<and>
   validate_block accept_all (block_of [proposal_of [tx_complete, tx_without_id]])
     = Inl AttributeError"
  by (simp add: validate_transaction_def validate_proposal_def validate_block_def
      validate_transaction_format_def validate_proposal_format_def validate_block_format_def
      signed_by_def accept_all_def message_method_def tx_complete_def tx_without_id_def
      proposal_of_def block_of_def)

text \<open>
  C2. The three validators should return \<open>True\<close> or \<open>False\<close> for every input and never
  let an exception out. The \<open>Validator\<close> of consensus/validation.py has no handler:
  a transaction with \<open>id\<close>, \<open>sender\<close> and \<open>signature\<close> but no \<open>get_message_for_signing\<close>
  raises \<open>AttributeError\<close>; a proposal whose \<open>transactions\<close> is \<open>None\<close> raises
  \<open>TypeError\<close>; a block holding a proposal without \<open>id\<close> raises \<open>AttributeError\<close> from
  the error line that formats \<open>proposal.id\<close>.
\<close>

theorem validator_lets_exceptions_out:
  "validate_transaction accept_all tx_without_method = Inl AttributeError \<and>
   validate_proposal accept_all
     (Obj [(''id'', Data (PStr ''p1'')), (''proposer'', Data (PStr ''did:x:2'')),
           (''signature'', Data (PStr ''5Hq2'')), (''transactions'', Data PNone), message_method])
     = Inl TypeError \<and>
   validate_block accept_all
     (block_of [Obj [(''proposer'', Data (PStr ''did:x:2'')), (''signature'', Data (PStr ''5Hq2'')),
                     (''transactions'', Seq []), message_method]])
     = Inl AttributeError"
  by (simp add: validate_transaction_def validate_proposal_def validate_block_def
      validate_transaction_format_def validate_proposal_format_def validate_block_format_def
      signed_by_def accept_all_def message_method_def tx_without_method_def block_of_def)

text \<open>
  The dict-based \<open>ValidationService.validate_transaction\<close> wraps its body in
  \<open>try\<close>/\<open>except Exception\<close>: whatever the body raises, the result is \<open>False\<close>.
\<close>

lemma service_validate_transaction_catches:
  "service_validate_transaction_body co t = Inl e \<Longrightarrow> service_validate_transaction co t = False"
  by (simp add: service_validate_transaction_def)

section \<open>Admission to the pending pools\<close>

lemma accepted_has_id: "validate_transaction ids tx = Inr True \<Longrightarrow> \<exists>v. getattr tx ''id'' = Inr v"
  by (auto simp: validate_transaction_def validate_transaction_format_def hasattr_getattr
      split: if_splits)

lemma accepted_proposal_has_id: "validate_proposal ids p = Inr True \<Longrightarrow> \<exists>v. getattr p ''id'' = Inr v"
  by (auto simp: validate_proposal_def validate_proposal_format_def hasattr_getattr
      split: if_splits)

text \<open>An accepted transaction is appended at the end of the pool.\<close>

lemma add_transaction_accepts:
  "validate_transaction ids tx = Inr True \<Longrightarrow>
   add_transaction ids s tx =
     (Inr True, s\<lparr>pending_transactions := pending_transactions s @ [tx]\<rparr>)"
  using accepted_has_id[of ids tx] by (auto simp: add_transaction_def)

lemma add_proposal_accepts:
  "validate_proposal ids p = Inr True \<Longrightarrow>
   add_proposal ids s p = (Inr True, s\<lparr>pending_proposals := pending_proposals s @ [p]\<rparr>)"
  using accepted_proposal_has_id[of ids p] by (auto simp: add_proposal_def)

text \<open>A rejected transaction that has an \<open>id\<close> gives \<open>False\<close>.\<close>

lemma add_transaction_rejects:
  "validate_transaction ids tx = Inr False \<Longrightarrow> hasattr tx ''id'' \<Longrightarrow>
   add_transaction ids s tx = (Inr False, s)"
  by (auto simp: add_transaction_def hasattr_getattr)

lemma add_proposal_rejects:
  "validate_proposal ids p = Inr False \<Longrightarrow> hasattr p ''id'' \<Longrightarrow>
   add_proposal ids s p = (Inr False, s)"
  by (auto simp: add_proposal_def hasattr_getattr)

text \<open>Whenever the result is not \<open>True\<close>, the pools are what they were.\<close>

lemma add_transaction_pool_unchanged:
  "fst (add_transaction ids s tx) \<noteq> Inr True \<Longrightarrow> snd (add_transaction ids s tx) = s"
  using accepted_has_id[of ids tx]
  by (auto simp: add_transaction_def split: sum.splits if_splits)

lemma add_proposal_pool_unchanged:
  "fst (add_proposal ids s p) \<noteq> Inr True \<Longrightarrow> snd (add_proposal ids s p) = s"
  using accepted_proposal_has_id[of ids p]
  by (auto simp: add_proposal_def split: sum.splits if_splits)

text \<open>
  C3. \<open>add_transaction\<close> should return \<open>False\<close> and leave the pool unchanged whenever
  \<open>validate_transaction\<close> is \<open>False\<close>, and \<open>add_proposal\<close> likewise. For the transaction
  without \<open>id\<close> (and for a proposal without \<open>id\<close>) validation is \<open>False\<close>, the pool is
  unchanged, but the call does not return \<open>False\<close>: its failure branch raises
  \<open>AttributeError\<close> while formatting the log line.
\<close>

theorem add_rejected_without_id_raises:
  "validate_transaction accept_all tx_without_id = Inr False \<and>
   add_transaction accept_all init_engine tx_without_id = (Inl AttributeError, init_engine) \<and>
   validate_proposal accept_all (Obj [(''proposer'', Data (PStr ''did:x:2''))]) = Inr False \<and>
   add_proposal accept_all init_engine (Obj [(''proposer'', Data (PStr ''did:x:2''))])
     = (Inl AttributeError, init_engine)"
  by (simp add: add_transaction_def add_proposal_def validate_transaction_def
      validate_proposal_def validate_transaction_format_def validate_proposal_format_def
      accept_all_def message_method_def tx_without_id_def)

section \<open>Required fields of a transaction\<close>

text \<open>
  C9, as stated: the required-field check of \<open>validate_transaction\<close> requires exactly
  \<open>id\<close>, \<open>signer\<close>, \<open>content\<close> and \<open>signature\<close>. The object-based \<open>Validator\<close> does not:
  it accepts a transaction that has neither \<open>signer\<close> nor \<open>content\<close>, and rejects one
  that has all four but no \<open>sender\<close>.
\<close>

theorem validator_accepts_without_signer_and_content:
  "\<not> hasattr tx_complete ''signer'' \<and> \<not> hasattr tx_complete ''content'' \<and>
   validate_transaction_format tx_complete \<and>
   validate_transaction accept_all tx_complete = Inr True \<and>
   validate_transaction accept_all
     (Obj [(''id'', Data (PStr ''tx1'')), (''signer'', Data (PStr ''did:x:1'')),
           (''content'', Data (PDict [(''amount'', PInt 100)])),
           (''signature'', Data (PStr ''3yZe7d'')), message_method]) = Inr False"
  by (simp add: validate_transaction_def validate_transaction_format_def signed_by_def
      accept_all_def message_method_def tx_complete_def)

text \<open>
  C9, amended. The object-based \<open>Validator\<close> requires exactly the attributes \<open>id\<close>,
  \<open>sender\<close> and \<open>signature\<close>, and \<open>validate_transaction\<close> returns \<open>False\<close> when one of
  them is missing. The dict-based \<open>ValidationService\<close> requires exactly the keys \<open>id\<close>,
  \<open>signer\<close>, \<open>content\<close> and \<open>signature\<close>, and its \<open>validate_transaction\<close> returns
  \<open>False\<close> when one of them is missing.
\<close>

theorem required_transaction_fields:
  "(validate_transaction_format tx \<longleftrightarrow>
      hasattr tx ''id'' \<and> hasattr tx ''sender'' \<and> hasattr tx ''signature'') \<and>
   (\<not> (hasattr tx ''id'' \<and> hasattr tx ''sender'' \<and> hasattr tx ''signature'') \<longrightarrow>
      validate_transaction ids tx = Inr False) \<and>
   check_required_transaction_fields (PDict kvs) =
      Inr (map_of kvs ''id'' \<noteq> None \<and> map_of kvs ''signer'' \<noteq> None \<and>
           map_of kvs ''content'' \<noteq> None \<and> map_of kvs ''signature'' \<noteq> None) \<and>
   (\<not> (map_of kvs ''id'' \<noteq> None \<and> map_of kvs ''signer'' \<noteq> None \<and>
        map_of kvs ''content'' \<noteq> None \<and> map_of kvs ''signature'' \<noteq> None) \<longrightarrow>
      service_validate_transaction co (PDict kvs) = False)"
proof -
  have fmt: "validate_transaction_format tx \<longleftrightarrow>
      hasattr tx ''id'' \<and> hasattr tx ''sender'' \<and> hasattr tx ''signature''"
    by (simp add: validate_transaction_format_def)
  have chk: "check_required_transaction_fields (PDict kvs) =
      Inr (map_of kvs ''id'' \<noteq> None \<and> map_of kvs ''signer'' \<noteq> None \<and>
           map_of kvs ''content'' \<noteq> None \<and> map_of kvs ''signature'' \<noteq> None)"
    by (simp add: check_required_transaction_fields_def)
  have rej: "validate_transaction ids tx = Inr False"
    if "\<not> (hasattr tx ''id'' \<and> hasattr tx ''sender'' \<and> hasattr tx ''signature'')"
    using that fmt by (simp add: validate_transaction_def)
  have srv: "service_validate_transaction co (PDict kvs) = False"
    if "\<not> (map_of kvs ''id'' \<noteq> None \<and> map_of kvs ''signer'' \<noteq> None \<and>
        map_of kvs ''content'' \<noteq> None \<and> map_of kvs ''signature'' \<noteq> None)"
    using that chk
    by (simp add: service_validate_transaction_def service_validate_transaction_body_def)
  show ?thesis using fmt chk rej srv by blast
qed

theorem required_transaction_fields_witness:
  "validate_transaction_format tx_complete \<and>
   \<not> hasattr tx_without_id ''id'' \<and>
   validate_transaction accept_all tx_without_id = Inr False \<and>
   check_required_transaction_fields
     (PDict [(''id'', PStr ''tx1''), (''signer'', PStr ''did:x:1''), (''signature'', PStr ''00'')])
     = Inr False \<and>
   service_validate_transaction permissive
     (PDict [(''id'', PStr ''tx1''), (''signer'', PStr ''did:x:1''), (''signature'', PStr ''00'')])
     = False"
  using required_transaction_fields [of tx_complete accept_all
      "[(''id'', PStr ''tx1''), (''signer'', PStr ''did:x:1''), (''signature'', PStr ''00'')]"
      permissive]
    required_transaction_fields [of tx_without_id accept_all "[]" permissive]
  by (simp add: message_method_def tx_complete_def tx_without_id_def)

section \<open>Canonical serialization\<close>

text \<open>
  Sorting an association list with distinct keys by key gives a list that depends on the
  map only, not on the order of the items.
\<close>

lemma filter_key_distinct:
  "distinct (map fst zs) \<Longrightarrow> k \<in> set zs \<Longrightarrow> filter (\<lambda>x. fst k = fst x) zs = [k]"
  by (induction zs) (auto simp: rev_image_eqI filter_empty_conv)

lemma sort_key_fst_unique:
  fixes xs ys :: "('k::linorder \<times> 'v) list"
  assumes "distinct (map fst xs)" "distinct (map fst ys)" "map_of xs = map_of ys"
  shows "sort_key fst xs = sort_key fst ys"
proof -
  have s: "set xs = set ys"
    using assms by (simp add: map_of_inject_set)
  have d: "distinct xs" "distinct ys"
    using assms(1,2) by (auto simp: distinct_map)
  have m: "mset (sort_key fst ys) = mset xs"
    using s d by (simp add: set_eq_iff_mset_eq_distinct)
  show ?thesis
  proof (rule properties_for_sort_key[OF m])
    fix k assume "k \<in> set (sort_key fst ys)"
    then have k: "k \<in> set ys" "k \<in> set xs" using s by auto
    have "filter (\<lambda>x. fst k = fst x) (sort_key fst ys) = sort_key fst (filter (\<lambda>x. fst k = fst x) ys)"
      by (simp add: filter_sort)
    also have "\<dots> = [k]"
      using filter_key_distinct[OF assms(2) k(1)] by simp
    also have "\<dots> = filter (\<lambda>x. fst k = fst x) xs"
      using filter_key_distinct[OF assms(1) k(2)] by simp
    finally show "filter (\<lambda>x. fst k = fst x) (sort_key fst ys) = filter (\<lambda>x. fst k = fst x) xs" .
  qed simp
qed

lemma map_of_rendered:
  "map_of (map (\<lambda>kv. (fst kv, render (snd kv))) kvs) k = map_option render (map_of kvs k)"
  by (induction kvs) auto

text \<open>The rendering of a value depends on the logical object only.\<close>

lemma render_same_map:
  "well_formed a \<Longrightarrow> well_formed b \<Longrightarrow> same_map a b \<Longrightarrow> render a = render b"
proof (induction a arbitrary: b)
  case (PList xs)
  then obtain ys where b: "b = PList ys" by (cases b) auto
  have "list_all2 same_map xs ys" using PList.prems b by simp
  moreover have "list_all well_formed xs" "list_all well_formed ys" using PList.prems b by simp_all
  ultimately have "map render xs = map render ys"
    using PList.IH
  proof (induction xs ys rule: list_all2_induct)
    case Nil then show ?case by simp
  next
    case (Cons x xs y ys)
    then show ?case by simp
  qed
  then show ?case using b by simp
next
  case (PDict kvs)
  then obtain kvs' where b: "b = PDict kvs'" by (cases b) auto
  let ?r = "\<lambda>kv. (fst kv, render (snd kv))"
  have keys: "set (map fst kvs) = set (map fst kvs')" using PDict.prems b by simp
  have d: "distinct (map fst kvs)" "distinct (map fst kvs')" using PDict.prems b by simp_all
  have "map_of (map ?r kvs) k = map_of (map ?r kvs') k" for k
  proof (cases "map_of kvs k")
    case None
    then have "k \<notin> fst ` set kvs" by (simp add: map_of_eq_None_iff)
    then have "k \<notin> fst ` set kvs'" using keys by simp
    then have "map_of kvs' k = None" by (simp add: map_of_eq_None_iff)
    with None show ?thesis by (simp add: map_of_rendered)
  next
    case (Some v)
    then have mem: "(k, v) \<in> set kvs" by (rule map_of_SomeD)
    then obtain v' where v': "map_of kvs' k = Some v'" "same_map v v'"
      using PDict.prems(3) b by (auto simp: list_all_iff split: option.splits)
    have "(k, v') \<in> set kvs'" using v'(1) by (rule map_of_SomeD)
    then have wf: "well_formed v" "well_formed v'"
      using mem PDict.prems(1,2) b by (auto simp: list_all_iff)
    have "render v = render v'"
      using PDict.IH[OF mem _ wf v'(2)] by simp
    then show ?thesis using Some v'(1) by (simp add: map_of_rendered)
  qed
  then have "map_of (map ?r kvs) = map_of (map ?r kvs')" by (rule ext)
  moreover have "distinct (map fst (map ?r kvs))" "distinct (map fst (map ?r kvs'))"
    using d by (simp_all add: comp_def)
  ultimately have "sort_key fst (map ?r kvs) = sort_key fst (map ?r kvs')"
    by (rule sort_key_fst_unique[rotated 2])
  then show ?case using b by simp
qed auto

lemma same_map_lookup:
  assumes "same_map (PDict kvs) (PDict kvs')" and "(k, v) \<in> set kvs"
  shows "\<exists>v'. map_of kvs' k = Some v' \<and> same_map v v'"
  using assms by (auto simp: list_all_iff split: option.splits)

lemma same_map_lookup_rev:
  assumes "same_map (PDict kvs) (PDict kvs')" and "distinct (map fst kvs)" and "(k, v') \<in> set kvs'"
    and "distinct (map fst kvs')"
  shows "\<exists>v. (k, v) \<in> set kvs \<and> same_map v v'"
proof -
  have "k \<in> fst ` set kvs" using assms(1,3) by (force simp: rev_image_eqI)
  then obtain v where v: "(k, v) \<in> set kvs" by auto
  then obtain w where w: "map_of kvs' k = Some w" "same_map v w"
    using same_map_lookup[OF assms(1)] by blast
  have "map_of kvs' k = Some v'" using assms(3,4) by simp
  with w v show ?thesis by auto
qed

lemma serializable_same_map:
  "well_formed a \<Longrightarrow> well_formed b \<Longrightarrow> same_map a b \<Longrightarrow> serializable a = serializable b"
proof (induction a arbitrary: b)
  case (PList xs)
  then obtain ys where b: "b = PList ys" by (cases b) auto
  have "list_all2 same_map xs ys" using PList.prems b by simp
  moreover have "list_all well_formed xs" "list_all well_formed ys" using PList.prems b by simp_all
  ultimately have "list_all serializable xs = list_all serializable ys"
    using PList.IH
  proof (induction xs ys rule: list_all2_induct)
    case Nil then show ?case by simp
  next
    case (Cons x xs y ys)
    have "serializable x = serializable y"
      using Cons.prems(3)[of x y] Cons.hyps(1) Cons.prems(1,2) by simp
    moreover have "list_all serializable xs = list_all serializable ys"
      using Cons.IH Cons.prems by simp
    ultimately show ?case by simp
  qed
  then show ?case using b by simp
next
  case (PDict kvs)
  then obtain kvs' where b: "b = PDict kvs'" by (cases b) auto
  have sm: "same_map (PDict kvs) (PDict kvs')" using PDict.prems b by simp
  have d: "distinct (map fst kvs)" "distinct (map fst kvs')" using PDict.prems b by simp_all
  have wf: "\<And>k v. (k, v) \<in> set kvs \<Longrightarrow> well_formed v" "\<And>k v. (k, v) \<in> set kvs' \<Longrightarrow> well_formed v"
    using PDict.prems b by (auto simp: list_all_iff)
  have step: "serializable v = serializable v'"
    if "(k, v) \<in> set kvs" "(k, v') \<in> set kvs'" "same_map v v'" for k v v'
    using PDict.IH[OF that(1) _ wf(1)[OF that(1)] wf(2)[OF that(2)] that(3)] by simp
  have "list_all (\<lambda>kv. serializable (snd kv)) kvs = list_all (\<lambda>kv. serializable (snd kv)) kvs'"
  proof
    assume l: "list_all (\<lambda>kv. serializable (snd kv)) kvs"
    show "list_all (\<lambda>kv. serializable (snd kv)) kvs'"
      unfolding list_all_iff
    proof
      fix kv assume "kv \<in> set kvs'"
      then have m: "(fst kv, snd kv) \<in> set kvs'" by simp
      then obtain v where v: "(fst kv, v) \<in> set kvs" "same_map v (snd kv)"
        using same_map_lookup_rev[OF sm d(1) _ d(2)] by blast
      then have "serializable v" using l by (auto simp: list_all_iff)
      then show "serializable (snd kv)" using step[OF v(1) m v(2)] by simp
    qed
  next
    assume l: "list_all (\<lambda>kv. serializable (snd kv)) kvs'"
    show "list_all (\<lambda>kv. serializable (snd kv)) kvs"
      unfolding list_all_iff
    proof
      fix kv assume "kv \<in> set kvs"
      then have m: "(fst kv, snd kv) \<in> set kvs" by simp
      then obtain v' where v': "map_of kvs' (fst kv) = Some v'" "same_map (snd kv) v'"
        using same_map_lookup[OF sm] by blast
      then have m': "(fst kv, v') \<in> set kvs'" by (simp add: map_of_SomeD)
      then have "serializable v'" using l by (auto simp: list_all_iff)
      then show "serializable (snd kv)" using step[OF m m' v'(2)] by simp
    qed
  qed
  then show ?case using b by simp
qed auto

lemma same_map_of_map_eq:
  assumes "distinct (map fst kvs)" "distinct (map fst kvs')" "map_of kvs = map_of kvs'"
    and refl: "\<And>k v. (k, v) \<in> set kvs \<Longrightarrow> same_map v v"
  shows "same_map (PDict kvs) (PDict kvs')"
proof -
  have s: "set kvs = set kvs'" using assms(1-3) by (simp add: map_of_inject_set)
  have "map_of kvs' k = Some v \<and> same_map v v" if "(k, v) \<in> set kvs" for k v
    using that assms(2) s refl by auto
  then show ?thesis using s by (auto simp: list_all_iff)
qed

lemma same_map_refl: "well_formed a \<Longrightarrow> same_map a a"
proof (induction a)
  case (PList xs)
  then show ?case by (auto simp: list_all2_same list_all_iff)
next
  case (PDict kvs)
  have "same_map v v" if "(k, v) \<in> set kvs" for k v
    using PDict.IH[OF that] that PDict.prems by (auto simp: list_all_iff)
  then show ?case using PDict.prems by (auto simp: list_all_iff)
qed auto

text \<open>
  C8. Two structured objects that are equal as maps, whatever the order of their fields
  (at any depth), have the same canonical serialization: \<open>json.dumps(data,
  sort_keys=True)\<close> gives the same text (or raises for both), so
  \<open>_serialize_for_verification\<close> gives the same bytes and \<open>calculate_fingerprint\<close> the
  same fingerprint.
\<close>

theorem canonical_serialization_order_independent:
  assumes "well_formed a" and "well_formed b" and "same_map a b"
  shows "json_dumps a = json_dumps b \<and>
         serialize_for_verification a = serialize_for_verification b \<and>
         calculate_fingerprint sha256 b64encode a = calculate_fingerprint sha256 b64encode b"
proof -
  have j: "json_dumps a = json_dumps b"
    using assms render_same_map serializable_same_map by (simp add: json_dumps_def)
  have f: "calculate_fingerprint sha256 b64encode a = calculate_fingerprint sha256 b64encode b"
  proof (cases a)
    case (PDict kvs)
    then obtain kvs' where "b = PDict kvs'" using assms(3) by (cases b) auto
    with PDict j show ?thesis by (simp add: calculate_fingerprint_def)
  next
    case (PList xs)
    then obtain ys where "b = PList ys" using assms(3) by (cases b) auto
    with PList show ?thesis by (simp add: calculate_fingerprint_def)
  qed (use assms(3) in auto)
  from j f show ?thesis by (simp add: serialize_for_verification_def)
qed

theorem canonical_serialization_order_independent_witness:
  "well_formed (PDict [(''recipient'', PStr ''user123''), (''amount'', PInt 100),
                       (''memo'', PDict [(''b'', PNone), (''a'', PList [PBool True])])]) \<and>
   well_formed (PDict [(''memo'', PDict [(''a'', PList [PBool True]), (''b'', PNone)]),
                       (''amount'', PInt 100), (''recipient'', PStr ''user123'')]) \<and>
   same_map (PDict [(''recipient'', PStr ''user123''), (''amount'', PInt 100),
                    (''memo'', PDict [(''b'', PNone), (''a'', PList [PBool True])])])
            (PDict [(''memo'', PDict [(''a'', PList [PBool True]), (''b'', PNone)]),
                    (''amount'', PInt 100), (''recipient'', PStr ''user123'')]) \<and>
   json_dumps (PDict [(''recipient'', PStr ''user123''), (''amount'', PInt 100),
                      (''memo'', PDict [(''b'', PNone), (''a'', PList [PBool True])])]) =
   json_dumps (PDict [(''memo'', PDict [(''a'', PList [PBool True]), (''b'', PNone)]),
                      (''amount'', PInt 100), (''recipient'', PStr ''user123'')])"
  using canonical_serialization_order_independent
    [of "PDict [(''recipient'', PStr ''user123''), (''amount'', PInt 100),
                (''memo'', PDict [(''b'', PNone), (''a'', PList [PBool True])])]"
        "PDict [(''memo'', PDict [(''a'', PList [PBool True]), (''b'', PNone)]),
                (''amount'', PInt 100), (''recipient'', PStr ''user123'')]"]
  by (auto simp: insert_commute)

section \<open>Dispatch on the key type\<close>

text \<open>
  C5. \<open>SignatureVerifier.verify\<close> compares \<open>key_type.lower()\<close> with \<open>ed25519\<close> and
  \<open>rsa\<close>. For a tag that is neither, it returns \<open>False\<close> with the error line
  \<open>Unsupported key type\<close>; it cannot raise, since the dispatch sits inside
  \<open>try\<close>/\<open>except Exception\<close>. A tag that is not even a string has no \<open>lower\<close>: the
  handler turns that into \<open>False\<close> with an error line as well.
\<close>

theorem verify_unsupported_key_type:
  "(map lower_latin1 tag \<noteq> ''ed25519'' \<longrightarrow> map lower_latin1 tag \<noteq> ''rsa'' \<longrightarrow>
      verify lib message signature public_key (PStr tag)
        = (False, [(ERROR, ''Unsupported key type'')])) \<and>
   (py_lower key_type \<noteq> Inr (PStr ''ed25519'') \<longrightarrow> py_lower key_type \<noteq> Inr (PStr ''rsa'') \<longrightarrow>
      fst (verify lib message signature public_key key_type) = False \<and>
      snd (verify lib message signature public_key key_type) \<noteq> [])"
  by (cases "py_lower key_type") (auto simp: verify_def)

theorem verify_unsupported_key_type_witness:
  "map lower_latin1 ''Unknown'' \<noteq> ''ed25519'' \<and> map lower_latin1 ''Unknown'' \<noteq> ''rsa'' \<and>
   verify \<lparr>b64decode = (\<lambda>s. Inr s), ed25519_check = (\<lambda>k s m. Inr ()), rsa_check = (\<lambda>k s m. Inr ())\<rparr>
     (PBytes ''msg'') (PBytes ''sig'') (PBytes ''key'') (PStr ''Unknown'')
     = (False, [(ERROR, ''Unsupported key type'')]) \<and>
   fst (verify \<lparr>b64decode = (\<lambda>s. Inr s), ed25519_check = (\<lambda>k s m. Inr ()), rsa_check = (\<lambda>k s m. Inr ())\<rparr>
     (PBytes ''msg'') (PBytes ''sig'') (PBytes ''key'') PNone) = False"
  using verify_unsupported_key_type
    [of "''Unknown''"
        "\<lparr>b64decode = (\<lambda>s. Inr s), ed25519_check = (\<lambda>k s m. Inr ()), rsa_check = (\<lambda>k s m. Inr ())\<rparr>"
        "PBytes ''msg''" "PBytes ''sig''" "PBytes ''key''" PNone]
  by (simp add: lower_latin1_def)

section \<open>Validation of DID documents\<close>

lemma methods_structured_complete:
  "list_all method_complete methods \<Longrightarrow> methods_structured methods = Inr True"
  by (induction methods) (auto simp: method_complete_def split: pyval.splits)

lemma collect_controllers:
  "list_all method_complete methods \<Longrightarrow>
   collect_set ''controller'' methods = Inr (map method_controller methods)"
  by (induction methods)
     (auto simp: method_complete_def method_controller_def split: pyval.splits)

lemma collect_service_ids:
  "list_all service_declared services \<Longrightarrow>
   collect_set ''id'' services = Inr (map service_id services)"
  by (induction services)
     (auto simp: service_declared_def service_id_def split: pyval.splits option.splits)

lemma references_exist_resolve:
  "list_all (resolves ids) refs \<Longrightarrow> references_exist refs ids = Inr True"
  by (induction refs) (auto simp: resolves_def set_member_def)

lemma services_exist_resolve:
  "list_all (references_resolve ids) methods \<Longrightarrow> services_exist methods ids = Inr True"
proof (induction methods)
  case Nil
  then show ?case by simp
next
  case (Cons m ms)
  then have r: "references_resolve ids m" and rest: "services_exist ms ids = Inr True"
    by simp_all
  from r obtain refs where g: "py_get m ''serviceEndpoint'' (PList []) = Inr refs"
    by (auto simp: references_resolve_def split: sum.splits)
  show ?case
  proof (cases refs)
    case (PList rs)
    then have "list_all (resolves ids) rs" using r g by (simp add: references_resolve_def)
    then show ?thesis using g PList rest by (simp add: references_exist_resolve)
  qed (use r g rest in \<open>auto simp: references_resolve_def resolves_def set_member_def split: if_splits\<close>)
qed

text \<open>
  C6. A DID document with a non-empty id, at least one verification method, every
  verification method complete, and every service reference resolving to a declared
  service id, is valid: \<open>validate_did_document\<close> returns \<open>True\<close>. When the document's
  id is not among the controllers of its verification methods, the only trace is one
  warning in the log; the result is still \<open>True\<close>.
\<close>

theorem validate_did_document_controller_warning_only:
  assumes "py_get did_document ''id'' PNone = Inr doc_id"
    and "truthy doc_id" and "hashable doc_id"
    and "py_get did_document ''verificationMethod'' (PList []) = Inr (PList methods)"
    and "methods \<noteq> []"
    and "list_all method_complete methods"
    and "py_get did_document ''service'' (PList []) = Inr (PList services)"
    and "list_all service_declared services"
    and "list_all (references_resolve (map service_id services)) methods"
  shows "validate_did_document did_document =
           Inr (True,
                if list_ex (scalar_eq doc_id) (map method_controller methods) then []
                else [(WARNING, ''DID document id is not a controller of any verification method'')])"
  using assms
  by (simp add: validate_did_document_def methods_structured_complete collect_controllers
      collect_service_ids services_exist_resolve set_member_def)

theorem validate_did_document_controller_warning_only_witness:
  "\<not> list_ex (scalar_eq (PStr ''did:x:1''))
       (map method_controller [method_of ''did:x:1#k1'' ''did:x:9'' ''z6Mkf'']) \<and>
   validate_did_document document_foreign_controller =
     Inr (True, [(WARNING, ''DID document id is not a controller of any verification method'')])"
  using validate_did_document_controller_warning_only
    [of document_foreign_controller "PStr ''did:x:1''"
        "[method_of ''did:x:1#k1'' ''did:x:9'' ''z6Mkf'']"
        "[PDict [(''id'', PStr ''svc1'')]]"]
  by (simp add: document_foreign_controller_def method_of_def method_complete_def
      method_controller_def service_declared_def service_id_def references_resolve_def
      scalar_eq_def)

section \<open>Looking up the verification key\<close>

lemma validate_document_two_keys: "validate_did_document document_two_keys = Inr (True, [])"
  by (simp add: validate_did_document_def document_two_keys_def method_of_def set_member_def scalar_eq_def)

text \<open>
  C7, as stated: the key lookup returns the key matching a requested key id when one is
  given. \<open>get_public_key\<close> has the DID as its only parameter; for the document with the
  two methods \<open>#k1\<close> and \<open>#k2\<close> it returns the key of \<open>#k1\<close>, where the
  specification's lookup for \<open>#k2\<close> gives the other key.
\<close>

theorem get_public_key_ignores_key_id:
  "validate_did_document document_two_keys = Inr (True, []) \<and>
   get_public_key (\<lambda>did. document_two_keys) (PStr ''did:x:1'') = Inr (PStr ''6Mkf'', []) \<and>
   spec_getVerificationKey document_two_keys None = PStr ''6Mkf'' \<and>
   spec_getVerificationKey document_two_keys (Some ''did:x:1#k2'') = PStr ''7Qrs''"
  by (simp add: get_public_key_def validate_document_two_keys)
     (simp add: document_two_keys_def method_of_def spec_getVerificationKey_def spec_method_key_def strip_multibase_def)

text \<open>
  A document that \<open>validate_did_document\<close> accepts is a non-empty dict whose
  \<open>verificationMethod\<close> is a non-empty list of dicts, the first of which has a
  \<open>publicKeyMultibase\<close>.
\<close>

lemma collect_set_dicts:
  "collect_set key xs = Inr vs \<Longrightarrow> x \<in> set xs \<Longrightarrow> \<exists>fs. x = PDict fs"
proof (induction xs arbitrary: vs)
  case Nil
  then show ?case by simp
next
  case (Cons y ys)
  from Cons.prems(1) obtain v vs' where
    y: "py_get y key PNone = Inr v" and rest: "collect_set key ys = Inr vs'"
    by (auto simp: bind_def split: sum.splits if_splits)
  from y have "\<exists>fs. y = PDict fs" by (cases y) auto
  with Cons.IH[OF rest] Cons.prems(2) show ?case by auto
qed

lemma methods_structured_key:
  "methods_structured ms = Inr True \<Longrightarrow> PDict fs \<in> set ms \<Longrightarrow>
   map_of fs ''publicKeyMultibase'' \<noteq> None"
  by (induction ms) (auto simp: bind_def split: sum.splits if_splits)

lemma iter_of_dicts:
  assumes "py_iter vms = Inr ms" and "truthy vms" and "\<And>x. x \<in> set ms \<Longrightarrow> \<exists>fs. x = PDict fs"
  shows "vms = PList ms \<and> ms \<noteq> []"
proof (cases vms)
  case (PList xs)
  then show ?thesis using assms(1,2) by auto
next
  case (PDict kvs)
  then obtain kv rest where "kvs = kv # rest" using assms(2) by (cases kvs) auto
  then have "PStr (fst kv) \<in> set ms" using assms(1) PDict by auto
  then show ?thesis using assms(3) by blast
next
  case (PStr s)
  then obtain c rest where "s = c # rest" using assms(2) by (cases s) auto
  then have "PStr [c] \<in> set ms" using assms(1) PStr by auto
  then show ?thesis using assms(3) by blast
next
  case (PBytes s)
  then obtain c rest where "s = c # rest" using assms(2) by (cases s) auto
  then have "PInt (of_char c) \<in> set ms" using assms(1) PBytes by auto
  then show ?thesis using assms(3) by blast
qed (use assms(1) in auto)

lemma validated_shape:
  assumes "validate_did_document doc = Inr (True, lg)"
  shows "truthy doc \<and>
         (\<exists>fs methods v. py_get doc ''verificationMethod'' (PList []) = Inr (PList (PDict fs # methods)) \<and>
            map_of fs ''publicKeyMultibase'' = Some v)"
proof -
  from assms obtain doc_id vms ms cs where
    i: "py_get doc ''id'' PNone = Inr doc_id" "truthy doc_id" and
    g: "py_get doc ''verificationMethod'' (PList []) = Inr vms" and t: "truthy vms" and
    it: "py_iter vms = Inr ms" and st: "methods_structured ms = Inr True" and
    cs: "collect_set ''controller'' ms = Inr cs"
    unfolding validate_did_document_def
    by (auto simp: bind_def Let_def split: sum.splits if_splits)
  obtain kvs where d: "doc = PDict kvs" using g by (cases doc) auto
  have "kvs \<noteq> []" using i d by (auto split: option.splits)
  then have td: "truthy doc" using d by simp
  have "vms = PList ms \<and> ms \<noteq> []"
    using iter_of_dicts[OF it t] collect_set_dicts[OF cs] by blast
  then obtain m rest where ms: "vms = PList (m # rest)" "ms = m # rest" by (cases ms) auto
  obtain fs where fs: "m = PDict fs" using collect_set_dicts[OF cs, of m] ms by auto
  then have "map_of fs ''publicKeyMultibase'' \<noteq> None"
    using methods_structured_key[OF st, of fs] ms by simp
  then show ?thesis using td g ms fs by auto
qed

text \<open>
  C7, amended. \<open>get_public_key(did)\<close> takes no key id. It returns \<open>None\<close> when the
  resolver returns no document or when \<open>validate_did_document\<close> returns \<open>False\<close>; for a
  document that validates, it returns the public key of the first verification method,
  without one leading multibase \<open>z\<close>, which is what the specification's lookup gives
  when no key id is requested.
\<close>

theorem get_public_key_first_method:
  "(\<not> truthy (resolve_did did) \<longrightarrow> get_public_key resolve_did did = Inr (PNone, [])) \<and>
   (truthy (resolve_did did) \<longrightarrow> validate_did_document (resolve_did did) = Inr (False, lg) \<longrightarrow>
      get_public_key resolve_did did = Inr (PNone, lg)) \<and>
   (validate_did_document (resolve_did did) = Inr (True, lg) \<longrightarrow>
      (\<exists>fs methods v.
         py_get (resolve_did did) ''verificationMethod'' (PList [])
           = Inr (PList (PDict fs # methods)) \<and>
         map_of fs ''publicKeyMultibase'' = Some v \<and>
         (\<forall>key. v = PStr key \<longrightarrow>
            get_public_key resolve_did did = Inr (PStr (strip_multibase key), lg) \<and>
            spec_getVerificationKey (resolve_did did) None = PStr (strip_multibase key))))"
proof -
  have a: "get_public_key resolve_did did = Inr (PNone, [])" if "\<not> truthy (resolve_did did)"
    using that by (simp add: get_public_key_def)
  have b: "get_public_key resolve_did did = Inr (PNone, lg)"
    if "truthy (resolve_did did)" "validate_did_document (resolve_did did) = Inr (False, lg)"
    using that by (simp add: get_public_key_def)
  have c: "\<exists>fs methods v.
         py_get (resolve_did did) ''verificationMethod'' (PList [])
           = Inr (PList (PDict fs # methods)) \<and>
         map_of fs ''publicKeyMultibase'' = Some v \<and>
         (\<forall>key. v = PStr key \<longrightarrow>
            get_public_key resolve_did did = Inr (PStr (strip_multibase key), lg) \<and>
            spec_getVerificationKey (resolve_did did) None = PStr (strip_multibase key))"
    if v: "validate_did_document (resolve_did did) = Inr (True, lg)"
  proof -
    from validated_shape[OF v] obtain fs methods w where
      t: "truthy (resolve_did did)" and
      g: "py_get (resolve_did did) ''verificationMethod'' (PList []) = Inr (PList (PDict fs # methods))" and
      k: "map_of fs ''publicKeyMultibase'' = Some w"
      by blast
    have "get_public_key resolve_did did = Inr (PStr (strip_multibase key), lg) \<and>
          spec_getVerificationKey (resolve_did did) None = PStr (strip_multibase key)"
      if "w = PStr key" for key
      using t v g k that
      by (simp add: get_public_key_def spec_getVerificationKey_def spec_method_key_def
          strip_multibase_def)
    with g k show ?thesis by blast
  qed
  show ?thesis using a b c by blast
qed

theorem get_public_key_first_method_witness:
  "get_public_key (\<lambda>did. PNone) (PStr ''did:x:0'') = Inr (PNone, []) \<and>
   validate_did_document document_two_keys = Inr (True, []) \<and>
   get_public_key (\<lambda>did. document_two_keys) (PStr ''did:x:1'') = Inr (PStr ''6Mkf'', [])"
  using get_public_key_first_method [of "\<lambda>did. PNone" "PStr ''did:x:0''"]
    get_public_key_first_method [of "\<lambda>did. document_two_keys" "PStr ''did:x:1''" "[]"]
    validate_document_two_keys
  by (simp add: document_two_keys_def method_of_def strip_multibase_def)

section \<open>Verifying a signature through the identity service\<close>

text \<open>
  Without a key, \<open>verify_signature\<close> logs the cause and returns \<open>False\<close>: when the
  resolver has no document, and when the document is rejected.
\<close>

lemma verify_signature_without_key:
  "get_public_key resolve_did did = Inr (key, lg) \<Longrightarrow> \<not> truthy key \<Longrightarrow>
   verify_signature resolve_did call did message signature
     = Inr (False, lg @ [(ERROR, ''Unable to retrieve public key for DID'')])"
  by (simp add: verify_signature_def)

lemma verify_signature_with_key:
  "get_public_key resolve_did did = Inr (key, lg) \<Longrightarrow> truthy key \<Longrightarrow>
   verify_signature resolve_did call did message signature = Inl AttributeError"
  by (simp add: verify_signature_def class_getattr_def SignatureVerifier_attributes_def)

lemma verify_signature_not_found:
  "\<not> truthy (resolve_did did) \<Longrightarrow>
   verify_signature resolve_did call did message signature
     = Inr (False, [(ERROR, ''Unable to retrieve public key for DID'')])"
  by (simp add: verify_signature_def get_public_key_def)

lemma verify_signature_document_invalid:
  "truthy (resolve_did did) \<Longrightarrow> validate_did_document (resolve_did did) = Inr (False, lg) \<Longrightarrow>
   verify_signature resolve_did call did message signature
     = Inr (False, lg @ [(ERROR, ''Unable to retrieve public key for DID'')])"
  by (simp add: verify_signature_def get_public_key_def)

text \<open>
  C1. \<open>verify_signature\<close> should return a boolean for every input and, once a key is
  found, dispatch to the signature verifier with the key's declared algorithm type. For
  a DID that resolves to a valid document with a key, the key is found, and the call
  \<open>SignatureVerifier.verify_signature(message, signature, public_key)\<close> raises
  \<open>AttributeError\<close>: the class imported from identity/signature.py binds \<open>verify\<close>,
  not \<open>verify_signature\<close>. No boolean is returned, whatever the message and signature.
\<close>

theorem verify_signature_raises_when_key_found:
  "get_public_key (\<lambda>did. document_two_keys) (PStr ''did:x:1'') = Inr (PStr ''6Mkf'', []) \<and>
   verify_signature (\<lambda>did. document_two_keys) call (PStr ''did:x:1'') message signature
     = Inl AttributeError"
proof -
  have k: "get_public_key (\<lambda>did. document_two_keys) (PStr ''did:x:1'') = Inr (PStr ''6Mkf'', [])"
    by (simp add: get_public_key_def validate_document_two_keys) (simp add: document_two_keys_def method_of_def)
  then show ?thesis
    by (simp add: verify_signature_with_key)
qed

end
